theory Spec2Isabelle
  imports Main "HOL-Library.Sublist"
begin

section \<open>The Snap-O command line launcher (SnapOCLI/main.c)\<close>

text \<open>
  The launcher canonicalizes its own path, removes the last two path components,
  appends a compiled-in relative path and replaces its process image with the
  executable found there, forwarding its arguments. C strings are modelled as
  \<open>string\<close> (the bytes before the terminating NUL), a \<open>char *\<close> that may be
  \<open>NULL\<close> as \<open>string option\<close>, and the C library and the operating system as a
  record of the functions the program calls.
\<close>

subsection \<open>The environment: C library and operating system\<close>

text \<open>
  \<^item> \<open>realpath\<close>: the canonical absolute path of a path name, or \<open>None\<close> where
    the C function returns \<open>NULL\<close>;
  \<^item> \<open>calloc_ok n size\<close>: whether \<open>calloc(n, size)\<close> returns a non-null block;
  \<^item> \<open>execv path args\<close>: \<open>None\<close> when the process image is replaced (the call
    does not return), \<open>Some e\<close> when the call returns \<open>-1\<close> with \<open>errno = e\<close>;
  \<^item> \<open>strerror\<close>: the text \<open>perror\<close> prints for an error number;
  \<^item> \<open>PATH_MAX\<close>: the constant of \<open>limits.h\<close>, which the source includes but
    does not define.
\<close>

record world =
  realpath :: "string \<Rightarrow> string option"
  calloc_ok :: "nat \<Rightarrow> nat \<Rightarrow> bool"
  execv :: "string \<Rightarrow> string option list \<Rightarrow> nat option"
  strerror :: "nat \<Rightarrow> string"
  PATH_MAX :: nat

text \<open>\<open>realpath(NULL, buf)\<close> returns \<open>NULL\<close> (with \<open>EINVAL\<close>).\<close>

definition c_realpath :: "world \<Rightarrow> string option \<Rightarrow> string option" where
  "c_realpath w p = (case p of None \<Rightarrow> None | Some s \<Rightarrow> realpath w s)"

definition INT_MAX :: nat where
  "INT_MAX = 2147483647"

definition sizeof_char_ptr :: nat where
  "sizeof_char_ptr = 8"

subsection \<open>String functions\<close>

text \<open>
  \<open>strrchr(s, c)\<close>: the position of the last occurrence of \<open>c\<close> in \<open>s\<close>, or
  \<open>None\<close> for the \<open>NULL\<close> the C function returns when there is none.
\<close>

fun strrchr :: "string \<Rightarrow> char \<Rightarrow> nat option" where
  "strrchr [] c = None"
| "strrchr (x # xs) c =
     (case strrchr xs c of
        Some i \<Rightarrow> Some (Suc i)
      | None \<Rightarrow> if x = c then Some 0 else None)"

text \<open>
  Lines 19-23 and again 25-29: find the last slash and overwrite it with NUL, which
  cuts the string there; \<open>None\<close> is the early \<open>return -1\<close>.
\<close>

definition strip_last_component :: "string \<Rightarrow> string option" where
  "strip_last_component s =
     (case strrchr s (CHR ''/'') of
        None \<Rightarrow> None
      | Some last_slash \<Rightarrow> Some (take last_slash s))"

text \<open>
  \<open>snprintf(out, out_size, "%s/%s", a, b)\<close>: the return value and the contents of
  \<open>out\<close>. The call fails with \<open>EOVERFLOW\<close> and a negative return value when
  \<open>out_size\<close> exceeds \<open>INT_MAX + 1\<close> or the formatted length exceeds \<open>INT_MAX\<close>;
  otherwise it returns the formatted length and stores at most \<open>out_size - 1\<close>
  bytes (nothing when \<open>out_size\<close> is 0).
\<close>

definition snprintf_path :: "nat \<Rightarrow> string \<Rightarrow> string \<Rightarrow> int \<times> string" where
  "snprintf_path out_size a b =
     (let full = a @ ''/'' @ b in
      if out_size > INT_MAX + 1 \<or> length full > INT_MAX then (- 1, [])
      else (int (length full), take (out_size - 1) full))"

subsection \<open>Resolving the helper executable\<close>

definition kHelperRelativeExecutable :: string where
  "kHelperRelativeExecutable =
     ''Helpers/Snap-O Network Inspector.app/Contents/MacOS/Snap-O Network Inspector''"

text \<open>
  The function returns \<open>-1\<close> at four places. The model names each place after the
  stage the specification gives it; \<open>return_code\<close> is the \<open>int\<close> the caller sees.
\<close>

datatype resolve_error = ResolutionError | LayoutError | FormattingError

definition resolve_helper_executable ::
    "world \<Rightarrow> string option \<Rightarrow> nat \<Rightarrow> resolve_error + string" where
  "resolve_helper_executable w argv0 out_size =
     (case c_realpath w argv0 of
        None \<Rightarrow> Inl ResolutionError
      | Some resolved_executable \<Rightarrow>
          (case strip_last_component resolved_executable of
             None \<Rightarrow> Inl LayoutError
           | Some dir \<Rightarrow>
               (case strip_last_component dir of
                  None \<Rightarrow> Inl LayoutError
                | Some root \<Rightarrow>
                    (let (written, out) =
                           snprintf_path out_size root kHelperRelativeExecutable
                     in if written < 0 \<or> nat written \<ge> out_size
                        then Inl FormattingError
                        else Inr out))))"

definition return_code :: "resolve_error + string \<Rightarrow> int" where
  "return_code r = (case r of Inl _ \<Rightarrow> - 1 | Inr _ \<Rightarrow> 0)"

subsection \<open>The main function\<close>

text \<open>
  What a run does that is visible outside: the writes to standard error, the calls
  of \<open>execv\<close> and of \<open>free\<close>, in order; and how it ends: the process image is
  replaced, or \<open>main\<close> returns a status.
\<close>

datatype event =
    Stderr string
  | Execv string "string option list"
  | Free

datatype outcome = Replaced | Exited int

definition newline :: char where
  "newline = CHR 0x0A"

definition msg_resolve :: string where
  "msg_resolve = ''snapo: failed to resolve helper executable path'' @ [newline]"

definition msg_allocate :: string where
  "msg_allocate = ''snapo: failed to allocate argument buffer'' @ [newline]"

text \<open>\<open>perror(s)\<close> writes \<open>s\<close>, a colon and a blank, the error text and a newline.\<close>

definition perror :: "world \<Rightarrow> string \<Rightarrow> nat \<Rightarrow> string" where
  "perror w s e = s @ '': '' @ strerror w e @ [newline]"

definition msg_launch :: "world \<Rightarrow> nat \<Rightarrow> string" where
  "msg_launch w e = perror w ''snapo: failed to launch helper'' e"

text \<open>The loop of lines 56-58.\<close>

function copy_args ::
    "nat \<Rightarrow> nat \<Rightarrow> string list \<Rightarrow> string option list \<Rightarrow> string option list" where
  "copy_args i argc argv child_argv =
     (if i < argc then copy_args (Suc i) argc argv (child_argv[i := Some (argv ! i)])
      else child_argv)"
  by pat_completeness auto
termination
  by (relation "measure (\<lambda>(i, argc, argv, child_argv). argc - i)") auto

declare copy_args.simps [simp del]

text \<open>
  Lines 49-59, once the allocation has succeeded: \<open>calloc\<close> gives \<open>argc + 1\<close> null
  pointers, slot 0 takes the helper path, the loop copies the rest, slot \<open>argc\<close>
  is set to null.
\<close>

definition build_child_argv :: "string \<Rightarrow> string list \<Rightarrow> string option list" where
  "build_child_argv helper_executable argv =
     (let argc = length argv;
          child_argv = replicate (argc + 1) None;
          child_argv = child_argv[0 := Some helper_executable];
          child_argv = copy_args 1 argc argv child_argv
      in child_argv[argc := None])"

text \<open>\<open>argv[0]\<close>; it is the null pointer \<open>argv[argc]\<close> when \<open>argc\<close> is 0.\<close>

definition argv0 :: "string list \<Rightarrow> string option" where
  "argv0 argv = (case argv of [] \<Rightarrow> None | a # _ \<Rightarrow> Some a)"

definition main :: "world \<Rightarrow> string list \<Rightarrow> event list \<times> outcome" where
  "main w argv =
     (let r = resolve_helper_executable w (argv0 argv) (PATH_MAX w) in
      if return_code r \<noteq> 0 then ([Stderr msg_resolve], Exited 1)
      else
        (case r of
           Inl _ \<Rightarrow> ([Stderr msg_resolve], Exited 1)
         | Inr helper_executable \<Rightarrow>
             if \<not> calloc_ok w (length argv + 1) sizeof_char_ptr
             then ([Stderr msg_allocate], Exited 1)
             else
               (let child_argv = build_child_argv helper_executable argv in
                case execv w helper_executable child_argv of
                  None \<Rightarrow> ([Execv helper_executable child_argv], Replaced)
                | Some e \<Rightarrow>
                    ([Execv helper_executable child_argv, Stderr (msg_launch w e), Free],
                     Exited 1))))"

subsection \<open>Observations on a run\<close>

text \<open>The lines written to standard error and the calls of \<open>execv\<close>, in order.\<close>

fun stderr_of :: "event list \<Rightarrow> string list" where
  "stderr_of [] = []"
| "stderr_of (Stderr s # es) = s # stderr_of es"
| "stderr_of (Execv p args # es) = stderr_of es"
| "stderr_of (Free # es) = stderr_of es"

fun execv_calls :: "event list \<Rightarrow> (string \<times> string option list) list" where
  "execv_calls [] = []"
| "execv_calls (Execv p args # es) = (p, args) # execv_calls es"
| "execv_calls (Stderr s # es) = execv_calls es"
| "execv_calls (Free # es) = execv_calls es"

definition one_line :: "string \<Rightarrow> bool" where
  "one_line s = (s \<noteq> [] \<and> last s = newline \<and> newline \<notin> set (butlast s))"

subsection \<open>Concrete installations\<close>

text \<open>
  An application bundle whose launcher is reached by its own path or through a
  symbolic link in \<open>/usr/local/bin\<close>; every allocation succeeds and \<open>execv\<close>
  replaces the image.
\<close>

definition installed_world :: world where
  "installed_world =
     \<lparr>realpath = (\<lambda>p. if p = ''/usr/local/bin/snapo'' \<or>
                          p = ''/Applications/Snap-O.app/Contents/MacOS/snapo''
                       then Some ''/Applications/Snap-O.app/Contents/MacOS/snapo''
                       else None),
      calloc_ok = (\<lambda>n size. True),
      execv = (\<lambda>path args. None),
      strerror = (\<lambda>e. ''No such file or directory''),
      PATH_MAX = 1024\<rparr>"

definition helper_path :: string where
  "helper_path = ''/Applications/Snap-O.app/Contents/Helpers/Snap-O Network Inspector.app/Contents/MacOS/Snap-O Network Inspector''"

text \<open>The same installation with the helper missing: \<open>execv\<close> fails with \<open>ENOENT\<close> (2).\<close>

definition missing_helper_world :: world where
  "missing_helper_world = installed_world\<lparr>execv := (\<lambda>path args. Some 2)\<rparr>"

text \<open>No memory for the argument array.\<close>

definition no_memory_world :: world where
  "no_memory_world = installed_world\<lparr>calloc_ok := (\<lambda>n size. False)\<rparr>"

text \<open>The launcher was deleted after the process started.\<close>

definition deleted_launcher_world :: world where
  "deleted_launcher_world = installed_world\<lparr>realpath := (\<lambda>p. None)\<rparr>"

text \<open>The launcher sits directly in the root directory.\<close>

definition root_launcher_world :: world where
  "root_launcher_world =
     installed_world\<lparr>realpath := (\<lambda>p. if p = ''/launcher'' then Some ''/launcher'' else None)\<rparr>"

text \<open>
  An installation below four directories with names of 240 bytes: the canonical path
  of the launcher has 974 bytes, less than \<open>PATH_MAX\<close>; the root has 964.
\<close>

definition deep_path :: string where
  "deep_path =
     ''/'' @ replicate 240 (CHR ''a'') @ ''/'' @ replicate 240 (CHR ''b'') @
     ''/'' @ replicate 240 (CHR ''c'') @ ''/'' @ replicate 240 (CHR ''d'') @ ''/bin/snapo''"

definition deep_root :: string where
  "deep_root =
     ''/'' @ replicate 240 (CHR ''a'') @ ''/'' @ replicate 240 (CHR ''b'') @
     ''/'' @ replicate 240 (CHR ''c'') @ ''/'' @ replicate 240 (CHR ''d'')"

definition deep_world :: world where
  "deep_world =
     installed_world\<lparr>realpath := (\<lambda>p. if p = ''snapo'' then Some deep_path else None)\<rparr>"

section \<open>Properties\<close>

subsection \<open>Finding and cutting at the last slash\<close>

lemma strrchr_None_iff: "strrchr s c = None \<longleftrightarrow> c \<notin> set s"
  by (induction s) (auto split: option.splits)

lemma strrchr_append: "c \<notin> set b \<Longrightarrow> strrchr (a @ c # b) c = Some (length a)"
  by (induction a) (auto simp: strrchr_None_iff split: option.splits)

lemma strrchr_SomeD:
  "strrchr s c = Some i \<Longrightarrow> \<exists>b. s = take i s @ c # b \<and> c \<notin> set b"
proof (induction s arbitrary: i)
  case Nil
  then show ?case by simp
next
  case (Cons x xs)
  show ?case
  proof (cases "strrchr xs c")
    case None
    with Cons.prems have "x = c" "i = 0" by (auto split: if_splits)
    moreover from None have "c \<notin> set xs" by (simp add: strrchr_None_iff)
    ultimately show ?thesis by simp
  next
    case (Some j)
    with Cons.prems have i: "i = Suc j" by simp
    from Cons.IH [OF Some] obtain b where "xs = take j xs @ c # b" "c \<notin> set b" by blast
    with i show ?thesis by (metis append_Cons take_Suc_Cons)
  qed
qed

lemma strip_last_component_None_iff:
  "strip_last_component s = None \<longleftrightarrow> CHR ''/'' \<notin> set s"
  using strrchr_None_iff [of s "CHR ''/''"]
  by (auto simp: strip_last_component_def split: option.splits)

lemma strip_last_component_append:
  "CHR ''/'' \<notin> set b \<Longrightarrow> strip_last_component (a @ ''/'' @ b) = Some a"
  by (simp add: strip_last_component_def strrchr_append)

lemma strip_last_component_SomeD:
  "strip_last_component s = Some d \<Longrightarrow> \<exists>b. s = d @ ''/'' @ b \<and> CHR ''/'' \<notin> set b"
  by (auto simp: strip_last_component_def split: option.splits dest: strrchr_SomeD)

lemma copy_args_eq:
  "i \<le> argc \<Longrightarrow> argc \<le> length argv \<Longrightarrow> argc < length child \<Longrightarrow>
   copy_args i argc argv child =
     take i child @ map Some (drop i (take argc argv)) @ drop argc child"
proof (induction i argc argv child rule: copy_args.induct)
  case (1 i argc argv child)
  show ?case
  proof (cases "i < argc")
    case False
    with "1.prems" show ?thesis by (simp add: copy_args.simps)
  next
    case True
    let ?child = "child[i := Some (argv ! i)]"
    have step: "copy_args i argc argv child = copy_args (Suc i) argc argv ?child"
      using True by (simp add: copy_args.simps)
    have ih: "copy_args (Suc i) argc argv ?child =
        take (Suc i) ?child @ map Some (drop (Suc i) (take argc argv)) @ drop argc ?child"
      using "1.IH" [OF True] True "1.prems" by simp
    have front: "take (Suc i) ?child = take i child @ [Some (argv ! i)]"
      using True "1.prems" by (simp add: take_Suc_conv_app_nth)
    have rear: "drop argc ?child = drop argc child"
      using True by simp
    have mid: "drop i (take argc argv) = argv ! i # drop (Suc i) (take argc argv)"
      using True "1.prems" by (metis Cons_nth_drop_Suc length_take min.absorb2 nth_take)
    show ?thesis
      by (simp add: step ih front rear mid)
  qed
qed

lemma drop_Cons_replicate: "drop n (y # replicate n y) = [y]"
  by (induction n) simp_all

lemma build_child_argv_eq:
  assumes "argv \<noteq> []"
  shows "build_child_argv h argv = Some h # map Some (tl argv) @ [None]"
proof -
  from assms obtain a as where argv: "argv = a # as" by (cases argv) auto
  let ?c0 = "(replicate (length argv + 1) None)[0 := Some h]"
  have c0: "?c0 = Some h # replicate (length argv) None" by simp
  have "copy_args 1 (length argv) argv ?c0 =
      take 1 ?c0 @ map Some (drop 1 (take (length argv) argv)) @ drop (length argv) ?c0"
    by (rule copy_args_eq) (simp_all add: argv)
  also have "drop (length argv) ?c0 = [None]"
    by (simp add: argv drop_Cons_replicate)
  also have "take 1 ?c0 = [Some h]"
    by simp
  also have "drop 1 (take (length argv) argv) = as"
    by (simp add: argv)
  finally have loop: "copy_args 1 (length argv) argv ?c0 = (Some h # map Some as) @ [None]"
    by simp
  have "build_child_argv h argv = ((Some h # map Some as) @ [None])[length argv := None]"
    unfolding build_child_argv_def Let_def loop ..
  also have "\<dots> = (Some h # map Some as) @ [None]"
    by (simp add: argv list_update_append)
  finally show ?thesis by (simp add: argv)
qed

lemma strip_last_component_count:
  "strip_last_component s = Some d \<Longrightarrow>
   count_list s (CHR ''/'') = Suc (count_list d (CHR ''/''))"
  by (auto dest!: strip_last_component_SomeD)

lemma strip_last_component_count0:
  "strip_last_component s = None \<longleftrightarrow> count_list s (CHR ''/'') = 0"
  by (simp add: strip_last_component_None_iff count_list_0_iff)

lemma snprintf_path_fst:
  "fst (snprintf_path n a b) =
     (if n > INT_MAX + 1 \<or> length (a @ ''/'' @ b) > INT_MAX then - 1
      else int (length (a @ ''/'' @ b)))"
  by (simp add: snprintf_path_def Let_def)

lemma resolve_at_root:
  assumes "c_realpath w a = Some p" "strip_last_component p = Some d"
    "strip_last_component d = Some root"
  shows "resolve_helper_executable w a n =
     (if fst (snprintf_path n root kHelperRelativeExecutable) < 0 \<or>
         n < length (root @ ''/'' @ kHelperRelativeExecutable) + 1
      then Inl FormattingError
      else Inr (root @ ''/'' @ kHelperRelativeExecutable))"
  using assms
  by (auto simp: resolve_helper_executable_def snprintf_path_def Let_def)

lemma resolve_fits:
  assumes "c_realpath w a = Some p" "strip_last_component p = Some d"
    "strip_last_component d = Some root"
    "length (root @ ''/'' @ kHelperRelativeExecutable) < n" "n \<le> INT_MAX + 1"
  shows "resolve_helper_executable w a n = Inr (root @ ''/'' @ kHelperRelativeExecutable)"
  using assms(4,5) by (simp add: resolve_at_root [OF assms(1-3)] snprintf_path_fst)

lemma installed_resolve:
  "resolve_helper_executable installed_world (Some ''/usr/local/bin/snapo'') 1024 =
     Inr helper_path"
  by (simp add: resolve_helper_executable_def c_realpath_def installed_world_def
      strip_last_component_def snprintf_path_def INT_MAX_def kHelperRelativeExecutable_def
      helper_path_def)

lemma resolve_depends_on_realpath:
  "c_realpath w a = c_realpath w' a' \<Longrightarrow>
   resolve_helper_executable w a n = resolve_helper_executable w' a' n"
  by (simp add: resolve_helper_executable_def)

lemma installed_strip1:
  "strip_last_component ''/Applications/Snap-O.app/Contents/MacOS/snapo'' =
     Some ''/Applications/Snap-O.app/Contents/MacOS''"
  by (simp add: strip_last_component_def)

lemma installed_strip2:
  "strip_last_component ''/Applications/Snap-O.app/Contents/MacOS'' =
     Some ''/Applications/Snap-O.app/Contents''"
  by (simp add: strip_last_component_def)

lemma installed_realpath:
  "c_realpath installed_world (Some ''/usr/local/bin/snapo'') =
     Some ''/Applications/Snap-O.app/Contents/MacOS/snapo''"
  by (simp add: c_realpath_def installed_world_def)

lemma missing_helper_resolve:
  "resolve_helper_executable missing_helper_world (Some ''/usr/local/bin/snapo'') 1024 =
     Inr helper_path"
  using installed_resolve
  by (simp add: resolve_helper_executable_def c_realpath_def missing_helper_world_def)

lemma no_memory_resolve:
  "resolve_helper_executable no_memory_world (Some ''/usr/local/bin/snapo'') 1024 =
     Inr helper_path"
  using installed_resolve
  by (simp add: resolve_helper_executable_def c_realpath_def no_memory_world_def)

lemma deep_path_split: "deep_path = (deep_root @ ''/bin'') @ ''/'' @ ''snapo''"
  by (simp add: deep_path_def deep_root_def)

lemma length_deep_root: "length deep_root = 964"
  by (simp add: deep_root_def)

subsection \<open>The runs of \<open>main\<close>, case by case\<close>

lemma main_resolve_failed:
  "resolve_helper_executable w (argv0 argv) (PATH_MAX w) = Inl err \<Longrightarrow>
   main w argv = ([Stderr msg_resolve], Exited 1)"
  by (simp add: main_def return_code_def)

lemma main_calloc_failed:
  "resolve_helper_executable w (argv0 argv) (PATH_MAX w) = Inr h \<Longrightarrow>
   \<not> calloc_ok w (length argv + 1) sizeof_char_ptr \<Longrightarrow>
   main w argv = ([Stderr msg_allocate], Exited 1)"
  by (simp add: main_def return_code_def)

lemma main_execv_failed:
  "resolve_helper_executable w (argv0 argv) (PATH_MAX w) = Inr h \<Longrightarrow>
   calloc_ok w (length argv + 1) sizeof_char_ptr \<Longrightarrow>
   execv w h (build_child_argv h argv) = Some e \<Longrightarrow>
   main w argv =
     ([Execv h (build_child_argv h argv), Stderr (msg_launch w e), Free], Exited 1)"
  by (simp add: main_def return_code_def)

lemma main_execv_replaced:
  "resolve_helper_executable w (argv0 argv) (PATH_MAX w) = Inr h \<Longrightarrow>
   calloc_ok w (length argv + 1) sizeof_char_ptr \<Longrightarrow>
   execv w h (build_child_argv h argv) = None \<Longrightarrow>
   main w argv = ([Execv h (build_child_argv h argv)], Replaced)"
  by (simp add: main_def return_code_def)

lemma msg_launch_neq_resolve: "msg_launch w e \<noteq> msg_resolve"
  by (simp add: msg_launch_def perror_def msg_resolve_def)

lemma msg_launch_neq_allocate: "msg_launch w e \<noteq> msg_allocate"
  by (simp add: msg_launch_def perror_def msg_allocate_def)

lemma msg_resolve_neq_allocate: "msg_resolve \<noteq> msg_allocate"
  by (simp add: msg_resolve_def msg_allocate_def)

lemma one_line_snoc: "one_line (s @ [newline]) \<longleftrightarrow> newline \<notin> set s"
  by (simp add: one_line_def)

lemma one_line_msg_resolve: "one_line msg_resolve"
  unfolding msg_resolve_def one_line_snoc by (simp add: newline_def)

lemma one_line_msg_allocate: "one_line msg_allocate"
  unfolding msg_allocate_def one_line_snoc by (simp add: newline_def)

lemma one_line_msg_launch: "newline \<notin> set (strerror w e) \<Longrightarrow> one_line (msg_launch w e)"
proof -
  assume a: "newline \<notin> set (strerror w e)"
  have "one_line ((''snapo: failed to launch helper: '' @ strerror w e) @ [newline])"
    by (rule iffD2 [OF one_line_snoc]) (use a in \<open>simp add: newline_def\<close>)
  then show ?thesis by (simp add: msg_launch_def perror_def)
qed

section \<open>The statements of the specification\<close>

subsection \<open>Resolution\<close>

text \<open>
  C1, as amended. Where the canonical path of the launcher is \<open>root/A/launcher\<close>
  (\<open>A\<close> and \<open>launcher\<close> single path components) and \<open>root\<close> joined with the
  compiled-in suffix fits the output buffer, the function succeeds and returns exactly
  \<open>root/\<close> followed by the suffix. The result is computed from the canonical path
  alone: any other name of the launcher, in any other file system, that canonicalizes
  to the same path gives the same result, however many symbolic links were followed.
\<close>

theorem resolve_two_levels_below_root:
  assumes "c_realpath w a = Some (root @ ''/'' @ A @ ''/'' @ launcher)"
    and "CHR ''/'' \<notin> set A" and "CHR ''/'' \<notin> set launcher"
    and "length (root @ ''/'' @ kHelperRelativeExecutable) < n" and "n \<le> INT_MAX + 1"
  shows "resolve_helper_executable w a n = Inr (root @ ''/'' @ kHelperRelativeExecutable) \<and>
         (c_realpath w' a' = c_realpath w a \<longrightarrow>
            resolve_helper_executable w' a' n = resolve_helper_executable w a n)"
proof -
  have "strip_last_component ((root @ ''/'' @ A) @ ''/'' @ launcher) = Some (root @ ''/'' @ A)"
    using assms(3) by (rule strip_last_component_append)
  then have s1: "strip_last_component (root @ ''/'' @ A @ ''/'' @ launcher) =
      Some (root @ ''/'' @ A)"
    by simp
  have s2: "strip_last_component (root @ ''/'' @ A) = Some root"
    using assms(2) by (rule strip_last_component_append)
  have "resolve_helper_executable w a n = Inr (root @ ''/'' @ kHelperRelativeExecutable)"
    by (rule resolve_fits [OF assms(1) s1 s2 assms(4,5)])
  then show ?thesis
    by (simp add: resolve_depends_on_realpath [of w' a' w a n])
qed

theorem resolve_two_levels_below_root_witness:
  "c_realpath installed_world (Some ''/usr/local/bin/snapo'') =
     Some (''/Applications/Snap-O.app/Contents'' @ ''/'' @ ''MacOS'' @ ''/'' @ ''snapo'') \<and>
   CHR ''/'' \<notin> set ''MacOS'' \<and> CHR ''/'' \<notin> set ''snapo'' \<and>
   length (''/Applications/Snap-O.app/Contents'' @ ''/'' @ kHelperRelativeExecutable) < 1024 \<and>
   1024 \<le> INT_MAX + 1 \<and>
   resolve_helper_executable installed_world (Some ''/usr/local/bin/snapo'') 1024 =
     Inr (''/Applications/Snap-O.app/Contents'' @ ''/'' @ kHelperRelativeExecutable) \<and>
   c_realpath installed_world (Some ''/Applications/Snap-O.app/Contents/MacOS/snapo'') =
     c_realpath installed_world (Some ''/usr/local/bin/snapo'') \<and>
   resolve_helper_executable installed_world
       (Some ''/Applications/Snap-O.app/Contents/MacOS/snapo'') 1024 =
     Inr (''/Applications/Snap-O.app/Contents'' @ ''/'' @ kHelperRelativeExecutable)"
proof -
  have h1: "c_realpath installed_world (Some ''/usr/local/bin/snapo'') =
     Some (''/Applications/Snap-O.app/Contents'' @ ''/'' @ ''MacOS'' @ ''/'' @ ''snapo'')"
    by (simp add: c_realpath_def installed_world_def)
  have h6: "c_realpath installed_world (Some ''/Applications/Snap-O.app/Contents/MacOS/snapo'') =
     c_realpath installed_world (Some ''/usr/local/bin/snapo'')"
    by (simp add: c_realpath_def installed_world_def)
  have h2: "CHR ''/'' \<notin> set ''MacOS''" by simp
  have h3: "CHR ''/'' \<notin> set ''snapo''" by simp
  have h4: "length (''/Applications/Snap-O.app/Contents'' @ ''/'' @ kHelperRelativeExecutable) < 1024"
    by (simp add: kHelperRelativeExecutable_def)
  have h5: "(1024::nat) \<le> INT_MAX + 1" by (simp add: INT_MAX_def)
  from resolve_two_levels_below_root [OF h1 h2 h3 h4 h5, of installed_world
      "Some ''/Applications/Snap-O.app/Contents/MacOS/snapo''"] h1 h2 h3 h4 h5 h6
  show ?thesis by metis
qed

text \<open>
  The specification puts the launcher at \<open>root/A/B/launcher\<close>. The function removes
  two components, the file name and one directory, so from that path it returns
  \<open>root/A/\<close> followed by the suffix, not \<open>root/\<close> followed by the suffix.
\<close>

theorem resolve_three_levels_counterexample:
  "c_realpath installed_world (Some ''/usr/local/bin/snapo'') =
     Some (''/Applications/Snap-O.app'' @ ''/'' @ ''Contents'' @ ''/'' @ ''MacOS'' @ ''/'' @
           ''snapo'') \<and>
   resolve_helper_executable installed_world (Some ''/usr/local/bin/snapo'')
       (PATH_MAX installed_world) =
     Inr (''/Applications/Snap-O.app/Contents'' @ ''/'' @ kHelperRelativeExecutable) \<and>
   resolve_helper_executable installed_world (Some ''/usr/local/bin/snapo'')
       (PATH_MAX installed_world) \<noteq>
     Inr (''/Applications/Snap-O.app'' @ ''/'' @ kHelperRelativeExecutable)"
proof -
  have "PATH_MAX installed_world = 1024" by (simp add: installed_world_def)
  then show ?thesis
    using installed_resolve installed_realpath
    by (simp add: helper_path_def kHelperRelativeExecutable_def)
qed

text \<open>
  C4. Once the launcher's path is canonicalized, the function fails at one of the two
  searches for a slash exactly when the canonical path has fewer than two slashes, that
  is fewer than two directory levels above the file name. In particular \<open>/launcher\<close>
  fails so.
\<close>

theorem resolve_layout_error:
  assumes "c_realpath w a = Some p"
  shows "(resolve_helper_executable w a n = Inl LayoutError) =
         (count_list p (CHR ''/'') < 2)"
proof (cases "strip_last_component p")
  case None
  then show ?thesis
    using assms strip_last_component_count0 [of p]
    by (simp add: resolve_helper_executable_def)
next
  case (Some d)
  note d = this
  show ?thesis
  proof (cases "strip_last_component d")
    case None
    then show ?thesis
      using assms d strip_last_component_count [OF d] strip_last_component_count0 [of d]
      by (simp add: resolve_helper_executable_def)
  next
    case (Some root)
    then show ?thesis
      using strip_last_component_count [OF d] strip_last_component_count [OF Some]
      by (simp add: resolve_at_root [OF assms d Some])
  qed
qed

theorem resolve_layout_error_witness:
  "c_realpath root_launcher_world (Some ''/launcher'') = Some ''/launcher'' \<and>
   count_list ''/launcher'' (CHR ''/'') < 2 \<and>
   resolve_helper_executable root_launcher_world (Some ''/launcher'')
     (PATH_MAX root_launcher_world) = Inl LayoutError"
proof -
  have h: "c_realpath root_launcher_world (Some ''/launcher'') = Some ''/launcher''"
    by (simp add: c_realpath_def root_launcher_world_def)
  from resolve_layout_error [OF h, of "PATH_MAX root_launcher_world"] h show ?thesis
    by simp
qed

text \<open>
  C7. With the installation root derived, the function fails at the formatting step
  exactly when \<open>snprintf\<close> fails (a negative return value) or the joined path with its
  terminating NUL needs more than \<open>out_size\<close> bytes; in every other case it succeeds
  with the root, a slash and the compiled-in suffix.
\<close>

theorem resolve_formatting_error:
  assumes "c_realpath w a = Some p"
    and "strip_last_component p = Some d"
    and "strip_last_component d = Some root"
  shows "(resolve_helper_executable w a n = Inl FormattingError) =
           (fst (snprintf_path n root kHelperRelativeExecutable) < 0 \<or>
            n < length (root @ ''/'' @ kHelperRelativeExecutable) + 1) \<and>
         (resolve_helper_executable w a n = Inr (root @ ''/'' @ kHelperRelativeExecutable)) =
           (0 \<le> fst (snprintf_path n root kHelperRelativeExecutable) \<and>
            length (root @ ''/'' @ kHelperRelativeExecutable) + 1 \<le> n)"
  by (auto simp: resolve_at_root [OF assms])

theorem resolve_formatting_error_witness:
  "c_realpath installed_world (Some ''/usr/local/bin/snapo'') =
     Some ''/Applications/Snap-O.app/Contents/MacOS/snapo'' \<and>
   strip_last_component ''/Applications/Snap-O.app/Contents/MacOS/snapo'' =
     Some ''/Applications/Snap-O.app/Contents/MacOS'' \<and>
   strip_last_component ''/Applications/Snap-O.app/Contents/MacOS'' =
     Some ''/Applications/Snap-O.app/Contents'' \<and>
   resolve_helper_executable installed_world (Some ''/usr/local/bin/snapo'') 110 =
     Inl FormattingError \<and>
   resolve_helper_executable installed_world (Some ''/usr/local/bin/snapo'') 111 =
     Inr helper_path"
proof -
  note t = resolve_formatting_error [OF installed_realpath installed_strip1 installed_strip2]
  have l: "length (''/Applications/Snap-O.app/Contents'' @ ''/'' @ kHelperRelativeExecutable) = 110"
    by (simp add: kHelperRelativeExecutable_def)
  have f: "fst (snprintf_path n ''/Applications/Snap-O.app/Contents'' kHelperRelativeExecutable) = 110"
    if "n \<le> 1024" for n
    using that l by (simp add: snprintf_path_fst INT_MAX_def)
  have p: "''/Applications/Snap-O.app/Contents'' @ ''/'' @ kHelperRelativeExecutable = helper_path"
    by (simp add: kHelperRelativeExecutable_def helper_path_def)
  have "resolve_helper_executable installed_world (Some ''/usr/local/bin/snapo'') 110 =
      Inl FormattingError"
    using t [of 110] l f [of 110] by simp
  moreover have "resolve_helper_executable installed_world (Some ''/usr/local/bin/snapo'') 111 =
      Inr helper_path"
    using t [of 111] l f [of 111] p by simp
  ultimately show ?thesis
    using installed_realpath installed_strip1 installed_strip2 by simp
qed

text \<open>
  C8, as amended. For a launcher path that canonicalizes, has two directory levels and
  whose joined helper path fits the buffer, resolution succeeds with the joined path,
  and it does so in every other state of the file system in which the launcher
  canonicalizes to the same path: nothing about the helper file is read. The run then
  calls \<open>execv\<close> on that path, which is where a missing helper shows.
\<close>

theorem resolve_ignores_helper_file:
  assumes "c_realpath w (argv0 argv) = Some p"
    and "strip_last_component p = Some d"
    and "strip_last_component d = Some root"
    and "length (root @ ''/'' @ kHelperRelativeExecutable) < PATH_MAX w"
    and "PATH_MAX w \<le> INT_MAX + 1"
  shows "resolve_helper_executable w (argv0 argv) (PATH_MAX w) =
           Inr (root @ ''/'' @ kHelperRelativeExecutable) \<and>
         (c_realpath w' (argv0 argv) = Some p \<and> PATH_MAX w' = PATH_MAX w \<longrightarrow>
            resolve_helper_executable w' (argv0 argv) (PATH_MAX w') =
              Inr (root @ ''/'' @ kHelperRelativeExecutable)) \<and>
         (calloc_ok w (length argv + 1) sizeof_char_ptr \<longrightarrow>
            execv_calls (fst (main w argv)) =
              [(root @ ''/'' @ kHelperRelativeExecutable,
                build_child_argv (root @ ''/'' @ kHelperRelativeExecutable) argv)])"
proof -
  let ?h = "root @ ''/'' @ kHelperRelativeExecutable"
  have r: "resolve_helper_executable w (argv0 argv) (PATH_MAX w) = Inr ?h"
    by (rule resolve_fits [OF assms])
  have "resolve_helper_executable w' (argv0 argv) (PATH_MAX w') = Inr ?h"
    if "c_realpath w' (argv0 argv) = Some p" "PATH_MAX w' = PATH_MAX w"
    using that r assms(1) resolve_depends_on_realpath [of w' "argv0 argv" w "argv0 argv" "PATH_MAX w"]
    by simp
  moreover have "execv_calls (fst (main w argv)) = [(?h, build_child_argv ?h argv)]"
    if c: "calloc_ok w (length argv + 1) sizeof_char_ptr"
  proof (cases "execv w ?h (build_child_argv ?h argv)")
    case None
    then show ?thesis by (simp add: main_execv_replaced [OF r c None])
  next
    case (Some e)
    then show ?thesis by (simp add: main_execv_failed [OF r c Some])
  qed
  ultimately show ?thesis using r by blast
qed

theorem resolve_ignores_helper_file_witness:
  "c_realpath missing_helper_world (argv0 [''/usr/local/bin/snapo'']) =
     Some ''/Applications/Snap-O.app/Contents/MacOS/snapo'' \<and>
   c_realpath installed_world (argv0 [''/usr/local/bin/snapo'']) =
     Some ''/Applications/Snap-O.app/Contents/MacOS/snapo'' \<and>
   execv missing_helper_world helper_path [Some helper_path, None] = Some 2 \<and>
   execv installed_world helper_path [Some helper_path, None] = None \<and>
   resolve_helper_executable missing_helper_world (argv0 [''/usr/local/bin/snapo''])
     (PATH_MAX missing_helper_world) = Inr helper_path \<and>
   resolve_helper_executable installed_world (argv0 [''/usr/local/bin/snapo''])
     (PATH_MAX installed_world) = Inr helper_path \<and>
   execv_calls (fst (main missing_helper_world [''/usr/local/bin/snapo''])) =
     [(helper_path, [Some helper_path, None])]"
proof -
  let ?w = missing_helper_world and ?argv = "[''/usr/local/bin/snapo'']"
  let ?root = "''/Applications/Snap-O.app/Contents''"
  have pm: "PATH_MAX ?w = 1024" "PATH_MAX installed_world = 1024"
    by (simp_all add: missing_helper_world_def installed_world_def)
  have h1: "c_realpath ?w (argv0 ?argv) = Some ''/Applications/Snap-O.app/Contents/MacOS/snapo''"
    by (simp add: c_realpath_def argv0_def missing_helper_world_def installed_world_def)
  have h1': "c_realpath installed_world (argv0 ?argv) =
      Some ''/Applications/Snap-O.app/Contents/MacOS/snapo''"
    by (simp add: c_realpath_def argv0_def installed_world_def)
  have h4: "length (?root @ ''/'' @ kHelperRelativeExecutable) < PATH_MAX ?w"
    by (simp add: pm kHelperRelativeExecutable_def)
  have h5: "PATH_MAX ?w \<le> INT_MAX + 1"
    by (simp add: pm INT_MAX_def)
  have c: "calloc_ok ?w (length ?argv + 1) sizeof_char_ptr"
    by (simp add: missing_helper_world_def installed_world_def)
  have p: "?root @ ''/'' @ kHelperRelativeExecutable = helper_path"
    by (simp add: kHelperRelativeExecutable_def helper_path_def)
  have b: "build_child_argv helper_path ?argv = [Some helper_path, None]"
    by (simp add: build_child_argv_eq)
  have e: "execv ?w helper_path [Some helper_path, None] = Some 2"
    "execv installed_world helper_path [Some helper_path, None] = None"
    by (simp_all add: missing_helper_world_def installed_world_def)
  note t = resolve_ignores_helper_file [OF h1 installed_strip1 installed_strip2 h4 h5,
      of installed_world, unfolded p b]
  from t h1 h1' pm c e show ?thesis
    by simp
qed

text \<open>
  The specification promises success for every launcher path that canonicalizes and
  is deep enough. A canonical path shorter than \<open>PATH_MAX\<close>, with six directory levels,
  whose root joined with the suffix is longer than the buffer, fails at the formatting
  step.
\<close>

theorem resolve_deep_root_counterexample:
  "c_realpath deep_world (Some ''snapo'') = Some deep_path \<and>
   length deep_path < PATH_MAX deep_world \<and>
   strip_last_component deep_path = Some (deep_root @ ''/bin'') \<and>
   strip_last_component (deep_root @ ''/bin'') = Some deep_root \<and>
   resolve_helper_executable deep_world (Some ''snapo'') (PATH_MAX deep_world) =
     Inl FormattingError"
proof -
  have pm: "PATH_MAX deep_world = 1024"
    by (simp add: deep_world_def installed_world_def)
  have r: "c_realpath deep_world (Some ''snapo'') = Some deep_path"
    by (simp add: c_realpath_def deep_world_def)
  have l: "length deep_path < PATH_MAX deep_world"
    by (simp add: pm deep_path_split length_deep_root)
  have s1: "strip_last_component deep_path = Some (deep_root @ ''/bin'')"
    unfolding deep_path_split by (rule strip_last_component_append) simp
  have "strip_last_component (deep_root @ ''/'' @ ''bin'') = Some deep_root"
    by (rule strip_last_component_append) simp
  then have s2: "strip_last_component (deep_root @ ''/bin'') = Some deep_root"
    by simp
  have "resolve_helper_executable deep_world (Some ''snapo'') (PATH_MAX deep_world) =
      Inl FormattingError"
    by (simp add: resolve_at_root [OF r s1 s2] pm length_deep_root kHelperRelativeExecutable_def)
  with r l s1 s2 show ?thesis by simp
qed

text \<open>
  C10. A helper path the function returns is shorter than the size of the output
  buffer (\<open>PATH_MAX\<close> in \<open>main\<close>), starts with the installation root (the canonical
  path less its last two components) and a slash, and ends with the constant
  \<open>Helpers/Snap-O Network Inspector.app/Contents/MacOS/Snap-O Network Inspector\<close>.
\<close>

theorem resolve_success_shape:
  assumes "resolve_helper_executable w a n = Inr h"
  shows "length h < n \<and>
    (\<exists>p d root. c_realpath w a = Some p \<and> strip_last_component p = Some d \<and>
        strip_last_component d = Some root \<and>
        prefix (root @ ''/'') h \<and>
        suffix ''Helpers/Snap-O Network Inspector.app/Contents/MacOS/Snap-O Network Inspector'' h \<and>
        h = root @ ''/'' @ kHelperRelativeExecutable)"
proof -
  from assms obtain p where p: "c_realpath w a = Some p"
    by (auto simp: resolve_helper_executable_def split: option.splits)
  from assms p obtain d where d: "strip_last_component p = Some d"
    by (auto simp: resolve_helper_executable_def split: option.splits)
  from assms p d obtain root where root: "strip_last_component d = Some root"
    by (auto simp: resolve_helper_executable_def split: option.splits)
  from assms have h: "h = root @ ''/'' @ kHelperRelativeExecutable"
    and n: "length (root @ ''/'' @ kHelperRelativeExecutable) + 1 \<le> n"
    by (simp_all add: resolve_at_root [OF p d root] split: if_splits)
  have "prefix (root @ ''/'') h"
    by (simp add: h)
  moreover have
    "suffix ''Helpers/Snap-O Network Inspector.app/Contents/MacOS/Snap-O Network Inspector'' h"
    unfolding h kHelperRelativeExecutable_def by (intro suffix_appendI) simp
  ultimately show ?thesis
    using p d root h n by auto
qed

theorem resolve_success_shape_witness:
  "resolve_helper_executable installed_world (Some ''/usr/local/bin/snapo'') 1024 =
     Inr helper_path \<and>
   length helper_path < 1024 \<and>
   prefix (''/Applications/Snap-O.app/Contents'' @ ''/'') helper_path \<and>
   suffix ''Helpers/Snap-O Network Inspector.app/Contents/MacOS/Snap-O Network Inspector''
     helper_path"
proof -
  from resolve_success_shape [OF installed_resolve] installed_realpath installed_strip1
    installed_strip2
  show ?thesis
    using installed_resolve by auto
qed

subsection \<open>The forwarded argument list\<close>

text \<open>
  C2. For an argument list of length \<open>n \<ge> 1\<close>, the array handed to \<open>execv\<close> has the
  resolved helper path in slot 0, the original arguments 1 to \<open>n - 1\<close> unchanged and
  in order in slots 1 to \<open>n - 1\<close>, and the null pointer in slot \<open>n\<close>: \<open>n\<close> arguments
  and the terminator. It is the array of the run's \<open>execv\<close> call.
\<close>

theorem main_forwards_arguments:
  assumes "argv \<noteq> []"
    and "resolve_helper_executable w (argv0 argv) (PATH_MAX w) = Inr h"
    and "calloc_ok w (length argv + 1) sizeof_char_ptr"
  shows "build_child_argv h argv = map Some (h # tl argv) @ [None] \<and>
         length (build_child_argv h argv) = length argv + 1 \<and>
         (\<exists>rest. fst (main w argv) = Execv h (map Some (h # tl argv) @ [None]) # rest)"
proof -
  have b: "build_child_argv h argv = map Some (h # tl argv) @ [None]"
    using assms(1) by (simp add: build_child_argv_eq)
  have "\<exists>rest. fst (main w argv) = Execv h (build_child_argv h argv) # rest"
    using assms(2,3) by (simp add: main_def return_code_def Let_def split: option.splits)
  with b assms(1) show ?thesis by simp
qed

theorem main_forwards_arguments_witness:
  "[''/usr/local/bin/snapo'', ''--flag'', ''value''] \<noteq> [] \<and>
   build_child_argv helper_path [''/usr/local/bin/snapo'', ''--flag'', ''value''] =
     [Some helper_path, Some ''--flag'', Some ''value'', None] \<and>
   fst (main installed_world [''/usr/local/bin/snapo'', ''--flag'', ''value'']) =
     [Execv helper_path [Some helper_path, Some ''--flag'', Some ''value'', None]]"
proof -
  let ?argv = "[''/usr/local/bin/snapo'', ''--flag'', ''value'']"
  have ne: "?argv \<noteq> []" by simp
  have r: "resolve_helper_executable installed_world (argv0 ?argv) (PATH_MAX installed_world) =
      Inr helper_path"
    using installed_resolve by (simp add: argv0_def installed_world_def)
  have c: "calloc_ok installed_world (length ?argv + 1) sizeof_char_ptr"
    by (simp add: installed_world_def)
  have e: "execv installed_world p a = None" for p a
    by (simp add: installed_world_def)
  from main_forwards_arguments [OF ne r c]
  have b: "build_child_argv helper_path ?argv =
      [Some helper_path, Some ''--flag'', Some ''value'', None]"
    by simp
  have "calloc_ok installed_world n s" for n s
    by (simp add: installed_world_def)
  then show ?thesis
    by (simp add: main_def return_code_def r b e)
qed

subsection \<open>Failures\<close>

text \<open>
  C3. Whenever a stage fails (resolution returns an error, or \<open>calloc\<close> returns null
  after resolution, or \<open>execv\<close> returns after both succeeded), the run does not end in
  the replaced process image: \<open>main\<close> returns status 1 and has written exactly one
  line to standard error (the error texts of \<open>strerror\<close> holding no newline). The line
  is the resolution message when resolution failed, the allocation message when the
  allocation failed, and the launch message with the error text when \<open>execv\<close>
  returned; the three are different strings, whatever the error text.
\<close>

theorem main_failure_diagnostic:
  assumes "(\<exists>err. resolve_helper_executable w (argv0 argv) (PATH_MAX w) = Inl err) \<or>
      (\<exists>h. resolve_helper_executable w (argv0 argv) (PATH_MAX w) = Inr h \<and>
           \<not> calloc_ok w (length argv + 1) sizeof_char_ptr) \<or>
      (\<exists>h e. resolve_helper_executable w (argv0 argv) (PATH_MAX w) = Inr h \<and>
           calloc_ok w (length argv + 1) sizeof_char_ptr \<and>
           execv w h (build_child_argv h argv) = Some e)"
    and "\<forall>e. newline \<notin> set (strerror w e)"
  shows "snd (main w argv) = Exited 1 \<and>
    (\<exists>msg. stderr_of (fst (main w argv)) = [msg] \<and> one_line msg \<and>
       ((\<exists>err. resolve_helper_executable w (argv0 argv) (PATH_MAX w) = Inl err \<and>
               msg = msg_resolve) \<or>
        (\<exists>h. resolve_helper_executable w (argv0 argv) (PATH_MAX w) = Inr h \<and>
             \<not> calloc_ok w (length argv + 1) sizeof_char_ptr \<and> msg = msg_allocate) \<or>
        (\<exists>h e. resolve_helper_executable w (argv0 argv) (PATH_MAX w) = Inr h \<and>
             calloc_ok w (length argv + 1) sizeof_char_ptr \<and>
             execv w h (build_child_argv h argv) = Some e \<and> msg = msg_launch w e))) \<and>
    msg_resolve \<noteq> msg_allocate \<and>
    (\<forall>e. msg_launch w e \<noteq> msg_resolve \<and> msg_launch w e \<noteq> msg_allocate)"
proof -
  let ?r = "resolve_helper_executable w (argv0 argv) (PATH_MAX w)"
  have distinct: "msg_resolve \<noteq> msg_allocate \<and>
      (\<forall>e. msg_launch w e \<noteq> msg_resolve \<and> msg_launch w e \<noteq> msg_allocate)"
    by (simp add: msg_launch_neq_resolve msg_launch_neq_allocate msg_resolve_neq_allocate)
  show ?thesis
  proof (cases ?r)
    case (Inl err)
    then show ?thesis
      using distinct by (simp add: main_resolve_failed [OF Inl] one_line_msg_resolve)
  next
    case (Inr h)
    show ?thesis
    proof (cases "calloc_ok w (length argv + 1) sizeof_char_ptr")
      case False
      then show ?thesis
        using distinct Inr by (simp add: main_calloc_failed [OF Inr False] one_line_msg_allocate)
    next
      case True
      from assms(1) Inr True obtain e where e: "execv w h (build_child_argv h argv) = Some e"
        by auto
      have "one_line (msg_launch w e)" using assms(2) by (simp add: one_line_msg_launch)
      then show ?thesis
        using distinct Inr True e by (simp add: main_execv_failed [OF Inr True e])
    qed
  qed
qed

theorem main_failure_diagnostic_witness:
  "resolve_helper_executable deleted_launcher_world (argv0 [''/usr/local/bin/snapo''])
     (PATH_MAX deleted_launcher_world) = Inl ResolutionError \<and>
   (\<forall>e. newline \<notin> set (strerror deleted_launcher_world e)) \<and>
   snd (main deleted_launcher_world [''/usr/local/bin/snapo'']) = Exited 1 \<and>
   stderr_of (fst (main deleted_launcher_world [''/usr/local/bin/snapo''])) =
     [''snapo: failed to resolve helper executable path'' @ [newline]] \<and>
   resolve_helper_executable no_memory_world (argv0 [''/usr/local/bin/snapo''])
     (PATH_MAX no_memory_world) = Inr helper_path \<and>
   \<not> calloc_ok no_memory_world (length [''/usr/local/bin/snapo''] + 1) sizeof_char_ptr \<and>
   (\<forall>e. newline \<notin> set (strerror no_memory_world e)) \<and>
   snd (main no_memory_world [''/usr/local/bin/snapo'']) = Exited 1 \<and>
   stderr_of (fst (main no_memory_world [''/usr/local/bin/snapo''])) =
     [''snapo: failed to allocate argument buffer'' @ [newline]] \<and>
   resolve_helper_executable missing_helper_world (argv0 [''/usr/local/bin/snapo''])
     (PATH_MAX missing_helper_world) = Inr helper_path \<and>
   calloc_ok missing_helper_world (length [''/usr/local/bin/snapo''] + 1) sizeof_char_ptr \<and>
   execv missing_helper_world helper_path
     (build_child_argv helper_path [''/usr/local/bin/snapo'']) = Some 2 \<and>
   (\<forall>e. newline \<notin> set (strerror missing_helper_world e)) \<and>
   snd (main missing_helper_world [''/usr/local/bin/snapo'']) = Exited 1 \<and>
   stderr_of (fst (main missing_helper_world [''/usr/local/bin/snapo''])) =
     [''snapo: failed to launch helper: No such file or directory'' @ [newline]]"
proof -
  let ?argv = "[''/usr/local/bin/snapo'']"
  let ?d = deleted_launcher_world and ?n = no_memory_world and ?m = missing_helper_world
  have rd: "resolve_helper_executable ?d (argv0 ?argv) (PATH_MAX ?d) = Inl ResolutionError"
    by (simp add: resolve_helper_executable_def c_realpath_def deleted_launcher_world_def
        argv0_def)
  have sd: "\<forall>e. newline \<notin> set (strerror ?d e)"
    by (simp add: deleted_launcher_world_def installed_world_def newline_def)
  have rn: "resolve_helper_executable ?n (argv0 ?argv) (PATH_MAX ?n) = Inr helper_path"
    using no_memory_resolve by (simp add: argv0_def no_memory_world_def installed_world_def)
  have cn: "\<not> calloc_ok ?n (length ?argv + 1) sizeof_char_ptr"
    by (simp add: no_memory_world_def)
  have sn: "\<forall>e. newline \<notin> set (strerror ?n e)"
    by (simp add: no_memory_world_def installed_world_def newline_def)
  have rm: "resolve_helper_executable ?m (argv0 ?argv) (PATH_MAX ?m) = Inr helper_path"
    using missing_helper_resolve
    by (simp add: argv0_def missing_helper_world_def installed_world_def)
  have cm: "calloc_ok ?m (length ?argv + 1) sizeof_char_ptr"
    by (simp add: missing_helper_world_def installed_world_def)
  have em: "execv ?m helper_path (build_child_argv helper_path ?argv) = Some 2"
    by (simp add: missing_helper_world_def)
  have sm: "\<forall>e. newline \<notin> set (strerror ?m e)"
    by (simp add: missing_helper_world_def installed_world_def newline_def)
  have tm: "msg_launch ?m 2 =
      ''snapo: failed to launch helper: No such file or directory'' @ [newline]"
    by (simp add: msg_launch_def perror_def missing_helper_world_def installed_world_def)
  have fd: "(\<exists>err. resolve_helper_executable ?d (argv0 ?argv) (PATH_MAX ?d) = Inl err) \<or>
      (\<exists>h. resolve_helper_executable ?d (argv0 ?argv) (PATH_MAX ?d) = Inr h \<and>
           \<not> calloc_ok ?d (length ?argv + 1) sizeof_char_ptr) \<or>
      (\<exists>h e. resolve_helper_executable ?d (argv0 ?argv) (PATH_MAX ?d) = Inr h \<and>
           calloc_ok ?d (length ?argv + 1) sizeof_char_ptr \<and>
           execv ?d h (build_child_argv h ?argv) = Some e)"
    using rd by blast
  have fn: "(\<exists>err. resolve_helper_executable ?n (argv0 ?argv) (PATH_MAX ?n) = Inl err) \<or>
      (\<exists>h. resolve_helper_executable ?n (argv0 ?argv) (PATH_MAX ?n) = Inr h \<and>
           \<not> calloc_ok ?n (length ?argv + 1) sizeof_char_ptr) \<or>
      (\<exists>h e. resolve_helper_executable ?n (argv0 ?argv) (PATH_MAX ?n) = Inr h \<and>
           calloc_ok ?n (length ?argv + 1) sizeof_char_ptr \<and>
           execv ?n h (build_child_argv h ?argv) = Some e)"
    using rn cn by blast
  have fm: "(\<exists>err. resolve_helper_executable ?m (argv0 ?argv) (PATH_MAX ?m) = Inl err) \<or>
      (\<exists>h. resolve_helper_executable ?m (argv0 ?argv) (PATH_MAX ?m) = Inr h \<and>
           \<not> calloc_ok ?m (length ?argv + 1) sizeof_char_ptr) \<or>
      (\<exists>h e. resolve_helper_executable ?m (argv0 ?argv) (PATH_MAX ?m) = Inr h \<and>
           calloc_ok ?m (length ?argv + 1) sizeof_char_ptr \<and>
           execv ?m h (build_child_argv h ?argv) = Some e)"
    using rm cm em by blast
  have d: "snd (main ?d ?argv) = Exited 1 \<and>
      stderr_of (fst (main ?d ?argv)) =
        [''snapo: failed to resolve helper executable path'' @ [newline]]"
    using main_failure_diagnostic [OF fd sd] rd by (auto simp: msg_resolve_def)
  have n: "snd (main ?n ?argv) = Exited 1 \<and>
      stderr_of (fst (main ?n ?argv)) = [''snapo: failed to allocate argument buffer'' @ [newline]]"
    using main_failure_diagnostic [OF fn sn] rn cn by (auto simp: msg_allocate_def)
  have m: "snd (main ?m ?argv) = Exited 1 \<and>
      stderr_of (fst (main ?m ?argv)) =
        [''snapo: failed to launch helper: No such file or directory'' @ [newline]]"
    using main_failure_diagnostic [OF fm sm] rm cm em tm by auto
  from d n m rd sd rn cn sn rm cm em sm show ?thesis
    by blast
qed

text \<open>
  C5. When \<open>realpath\<close> fails on the launcher's own path, resolution fails at its first
  return, the run writes the resolution message, returns status 1, and calls \<open>execv\<close>
  not once.
\<close>

theorem main_realpath_failure:
  assumes "c_realpath w (argv0 argv) = None"
  shows "resolve_helper_executable w (argv0 argv) (PATH_MAX w) = Inl ResolutionError \<and>
         main w argv = ([Stderr msg_resolve], Exited 1) \<and>
         execv_calls (fst (main w argv)) = []"
proof -
  have r: "resolve_helper_executable w (argv0 argv) (PATH_MAX w) = Inl ResolutionError"
    using assms by (simp add: resolve_helper_executable_def)
  then show ?thesis by (simp add: main_resolve_failed [OF r])
qed

theorem main_realpath_failure_witness:
  "c_realpath deleted_launcher_world (argv0 [''/usr/local/bin/snapo'', ''--flag'']) = None \<and>
   main deleted_launcher_world [''/usr/local/bin/snapo'', ''--flag''] =
     ([Stderr (''snapo: failed to resolve helper executable path'' @ [newline])], Exited 1) \<and>
   execv_calls (fst (main deleted_launcher_world [''/usr/local/bin/snapo'', ''--flag''])) = []"
proof -
  have h: "c_realpath deleted_launcher_world (argv0 [''/usr/local/bin/snapo'', ''--flag'']) = None"
    by (simp add: c_realpath_def argv0_def deleted_launcher_world_def)
  from main_realpath_failure [OF h] h show ?thesis
    by (simp add: msg_resolve_def)
qed

text \<open>
  C6. When the helper path is resolved, the argument array allocated and \<open>execv\<close>
  returns (the helper is missing, say), the run returns status 1 and its one line on
  standard error is the launch message, which differs from the resolution message and
  so from what any run that fails in resolution writes.
\<close>

theorem main_launch_failure:
  assumes "resolve_helper_executable w (argv0 argv) (PATH_MAX w) = Inr h"
    and "calloc_ok w (length argv + 1) sizeof_char_ptr"
    and "execv w h (build_child_argv h argv) = Some e"
  shows "snd (main w argv) = Exited 1 \<and>
         stderr_of (fst (main w argv)) = [msg_launch w e] \<and>
         msg_launch w e \<noteq> msg_resolve \<and>
         (return_code (resolve_helper_executable w' (argv0 argv') (PATH_MAX w')) \<noteq> 0 \<longrightarrow>
            stderr_of (fst (main w' argv')) \<noteq> stderr_of (fst (main w argv)))"
proof -
  have m: "stderr_of (fst (main w argv)) = [msg_launch w e]" "snd (main w argv) = Exited 1"
    by (simp_all add: main_execv_failed [OF assms])
  have "stderr_of (fst (main w' argv')) = [msg_resolve]"
    if "return_code (resolve_helper_executable w' (argv0 argv') (PATH_MAX w')) \<noteq> 0"
    using that by (simp add: main_def)
  then show ?thesis
    using m msg_launch_neq_resolve [of w e] by auto
qed

theorem main_launch_failure_witness:
  "resolve_helper_executable missing_helper_world (argv0 [''/usr/local/bin/snapo'', ''-v''])
     (PATH_MAX missing_helper_world) = Inr helper_path \<and>
   execv missing_helper_world helper_path
     (build_child_argv helper_path [''/usr/local/bin/snapo'', ''-v'']) = Some 2 \<and>
   snd (main missing_helper_world [''/usr/local/bin/snapo'', ''-v'']) = Exited 1 \<and>
   stderr_of (fst (main missing_helper_world [''/usr/local/bin/snapo'', ''-v''])) =
     [''snapo: failed to launch helper: No such file or directory'' @ [newline]] \<and>
   stderr_of (fst (main deleted_launcher_world [''/usr/local/bin/snapo'', ''-v''])) =
     [''snapo: failed to resolve helper executable path'' @ [newline]]"
proof -
  let ?w = missing_helper_world and ?argv = "[''/usr/local/bin/snapo'', ''-v'']"
  have r: "resolve_helper_executable ?w (argv0 ?argv) (PATH_MAX ?w) = Inr helper_path"
    using missing_helper_resolve
    by (simp add: argv0_def missing_helper_world_def installed_world_def)
  have c: "calloc_ok ?w (length ?argv + 1) sizeof_char_ptr"
    by (simp add: missing_helper_world_def installed_world_def)
  have e: "execv ?w helper_path (build_child_argv helper_path ?argv) = Some 2"
    by (simp add: missing_helper_world_def)
  have t: "msg_launch ?w 2 =
      ''snapo: failed to launch helper: No such file or directory'' @ [newline]"
    by (simp add: msg_launch_def perror_def missing_helper_world_def installed_world_def)
  have d: "resolve_helper_executable deleted_launcher_world (argv0 ?argv)
      (PATH_MAX deleted_launcher_world) = Inl ResolutionError"
    by (simp add: resolve_helper_executable_def c_realpath_def deleted_launcher_world_def
        argv0_def)
  from main_launch_failure [OF r c e, of deleted_launcher_world ?argv] r e show ?thesis
    by (simp add: t main_resolve_failed [OF d] msg_resolve_def)
qed

text \<open>
  C9. When \<open>calloc\<close> fails for the argument array, whatever the number of arguments,
  the run returns status 1, has written one line to standard error and never calls
  \<open>execv\<close>; when resolution had succeeded, the line is the allocation message.
\<close>

theorem main_allocation_failure:
  assumes "\<not> calloc_ok w (length argv + 1) sizeof_char_ptr"
  shows "snd (main w argv) = Exited 1 \<and>
         execv_calls (fst (main w argv)) = [] \<and>
         (\<exists>msg. stderr_of (fst (main w argv)) = [msg] \<and> one_line msg) \<and>
         (resolve_helper_executable w (argv0 argv) (PATH_MAX w) = Inr h \<longrightarrow>
            main w argv = ([Stderr msg_allocate], Exited 1))"
proof (cases "resolve_helper_executable w (argv0 argv) (PATH_MAX w)")
  case (Inl err)
  then show ?thesis
    by (simp add: main_resolve_failed [OF Inl] one_line_msg_resolve)
next
  case (Inr h')
  then show ?thesis
    by (simp add: main_calloc_failed [OF Inr assms] one_line_msg_allocate)
qed

theorem main_allocation_failure_witness:
  "\<not> calloc_ok no_memory_world (length [''/usr/local/bin/snapo'', ''a'', ''b''] + 1)
       sizeof_char_ptr \<and>
   resolve_helper_executable no_memory_world (argv0 [''/usr/local/bin/snapo'', ''a'', ''b''])
     (PATH_MAX no_memory_world) = Inr helper_path \<and>
   main no_memory_world [''/usr/local/bin/snapo'', ''a'', ''b''] =
     ([Stderr (''snapo: failed to allocate argument buffer'' @ [newline])], Exited 1) \<and>
   execv_calls (fst (main no_memory_world [''/usr/local/bin/snapo'', ''a'', ''b''])) = []"
proof -
  let ?w = no_memory_world and ?argv = "[''/usr/local/bin/snapo'', ''a'', ''b'']"
  have r: "resolve_helper_executable ?w (argv0 ?argv) (PATH_MAX ?w) = Inr helper_path"
    using no_memory_resolve
    by (simp add: argv0_def no_memory_world_def installed_world_def)
  have c: "\<not> calloc_ok ?w (length ?argv + 1) sizeof_char_ptr"
    by (simp add: no_memory_world_def)
  from main_allocation_failure [OF c, of helper_path] r c show ?thesis
    by (simp add: msg_allocate_def)
qed

end
